theory Spec2Isabelle
  imports Complex_Main "HOL-Library.Multiset"
begin

section \<open>JavaScript values as the handlers see them\<close>

text \<open>
  The handlers of the server (\<^verbatim>\<open>app.post('/api/orders', ...)\<close> and its siblings) read
  JSON request bodies and decide by JavaScript truthiness, \<^verbatim>\<open>typeof\<close>, \<^verbatim>\<open>parseFloat\<close> and
  the string methods \<^verbatim>\<open>trim\<close>, \<^verbatim>\<open>toLowerCase\<close> and \<^verbatim>\<open>split\<close>.  This section models those
  primitives.

  A JavaScript number is \<open>NaN\<close>, an infinity, or a finite value.  A finite double is
  identified with the real number it denotes: rounding to 53 bits and the overflow of a
  huge literal to \<open>Infinity\<close> are not modelled, and there is one zero.
\<close>

datatype jsnum = NaN | PosInf | NegInf | Fin real

datatype json =
    JUndefined
  | JNull
  | JBool bool
  | JNum jsnum
  | JStr string
  | JArr "json list"
  | JObj "(string \<times> json) list"

type_synonym obj = "(string \<times> json) list"

text \<open>\<^verbatim>\<open>!x\<close> is \<open>\<not> truthy x\<close>: the falsy values are \<^verbatim>\<open>undefined\<close>, \<^verbatim>\<open>null\<close>, \<^verbatim>\<open>false\<close>,
  \<^verbatim>\<open>0\<close>, \<^verbatim>\<open>NaN\<close> and the empty string.\<close>

fun truthy_num :: "jsnum \<Rightarrow> bool" where
  "truthy_num NaN = False"
| "truthy_num PosInf = True"
| "truthy_num NegInf = True"
| "truthy_num (Fin r) = (r \<noteq> 0)"

fun truthy :: "json \<Rightarrow> bool" where
  "truthy JUndefined = False"
| "truthy JNull = False"
| "truthy (JBool b) = b"
| "truthy (JNum n) = truthy_num n"
| "truthy (JStr s) = (s \<noteq> [])"
| "truthy (JArr xs) = True"
| "truthy (JObj kvs) = True"

text \<open>\<^verbatim>\<open>a || b\<close> on values and on numbers.\<close>

definition js_or :: "json \<Rightarrow> json \<Rightarrow> json" where
  "js_or a b = (if truthy a then a else b)"

definition num_or :: "jsnum \<Rightarrow> jsnum \<Rightarrow> jsnum" where
  "num_or a b = (if truthy_num a then a else b)"

definition isNaN :: "jsnum \<Rightarrow> bool" where
  "isNaN n = (n = NaN)"

fun isFinite :: "jsnum \<Rightarrow> bool" where
  "isFinite (Fin r) = True"
| "isFinite n = False"

text \<open>Reading a property.  \<open>lookup\<close> reads a key of an object given by its entries (a
  request body: \<^verbatim>\<open>express.json()\<close> and \<^verbatim>\<open>express.urlencoded()\<close> leave an object in
  \<^verbatim>\<open>req.body\<close>); a missing key reads as \<^verbatim>\<open>undefined\<close>.  \<open>get_prop\<close> reads a property of any
  value the handlers have found truthy: a key of an object, the \<^verbatim>\<open>length\<close> of an array or a
  string, and \<^verbatim>\<open>undefined\<close> otherwise.\<close>

definition lookup :: "obj \<Rightarrow> string \<Rightarrow> json" where
  "lookup kvs k = (case map_of kvs k of Some v \<Rightarrow> v | None \<Rightarrow> JUndefined)"

fun get_prop :: "json \<Rightarrow> string \<Rightarrow> json" where
  "get_prop (JObj kvs) k = lookup kvs k"
| "get_prop (JArr xs) k = (if k = ''length'' then JNum (Fin (real (length xs))) else JUndefined)"
| "get_prop (JStr s) k = (if k = ''length'' then JNum (Fin (real (length s))) else JUndefined)"
| "get_prop v k = JUndefined"

text \<open>\<^verbatim>\<open>v && typeof v === 'string'\<close>.\<close>

fun is_nonempty_string :: "json \<Rightarrow> bool" where
  "is_nonempty_string (JStr t) = (t \<noteq> [])"
| "is_nonempty_string v = False"

subsection \<open>String methods\<close>

text \<open>Strings are byte strings; the methods are modelled on ASCII.  White space is what
  \<^verbatim>\<open>trim\<close> and \<^verbatim>\<open>parseFloat\<close> strip: space, tab, line feed, vertical tab, form feed and
  carriage return.\<close>

definition is_ws :: "char \<Rightarrow> bool" where
  "is_ws c = (of_char c \<in> {9, 10, 11, 12, 13, 32 :: nat})"

definition trim :: "string \<Rightarrow> string" where
  "trim s = rev (dropWhile is_ws (rev (dropWhile is_ws s)))"

definition lower_char :: "char \<Rightarrow> char" where
  "lower_char c =
     (let n = of_char c :: nat in if 65 \<le> n \<and> n \<le> 90 then char_of (n + 32) else c)"

definition toLowerCase :: "string \<Rightarrow> string" where
  "toLowerCase s = map lower_char s"

text \<open>\<^verbatim>\<open>name.split(' ')[0]\<close>: the part of the string before its first space character.\<close>

definition split_space_first :: "string \<Rightarrow> string" where
  "split_space_first s = takeWhile (\<lambda>c. c \<noteq> CHR '' '') s"

subsection \<open>parseFloat\<close>

text \<open>\<^verbatim>\<open>parseFloat(string)\<close> skips leading white space and reads the longest prefix that is
  a decimal literal: an optional sign, then \<^verbatim>\<open>Infinity\<close>, or digits with an optional
  fraction and an optional exponent.  No such prefix gives \<open>NaN\<close>.\<close>

definition is_digit :: "char \<Rightarrow> bool" where
  "is_digit c = (let n = of_char c :: nat in 48 \<le> n \<and> n \<le> 57)"

definition digit_val :: "char \<Rightarrow> nat" where
  "digit_val c = of_char c - 48"

definition digits_val :: "string \<Rightarrow> nat" where
  "digits_val ds = foldl (\<lambda>a c. 10 * a + digit_val c) 0 ds"

text \<open>The exponent part: \<^verbatim>\<open>e\<close> or \<^verbatim>\<open>E\<close>, an optional sign, and at least one digit;
  anything else is not part of the literal and the exponent is 0.\<close>

definition exponent :: "string \<Rightarrow> int" where
  "exponent s =
     (case s of
        [] \<Rightarrow> 0
      | c # t \<Rightarrow>
          if c = CHR ''e'' \<or> c = CHR ''E'' then
            (case t of
               [] \<Rightarrow> 0
             | d # u \<Rightarrow>
                 if d = CHR ''-'' then - int (digits_val (takeWhile is_digit u))
                 else if d = CHR ''+'' then int (digits_val (takeWhile is_digit u))
                 else int (digits_val (takeWhile is_digit t)))
          else 0)"

definition scale10 :: "real \<Rightarrow> int \<Rightarrow> real" where
  "scale10 x e = (if 0 \<le> e then x * 10 ^ nat e else x / 10 ^ nat (- e))"

definition unsigned_literal :: "string \<Rightarrow> jsnum" where
  "unsigned_literal s =
     (if take 8 s = ''Infinity'' then PosInf
      else
        let ip = takeWhile is_digit s;
            r1 = dropWhile is_digit s;
            fp = (case r1 of [] \<Rightarrow> [] | c # t \<Rightarrow> if c = CHR ''.'' then takeWhile is_digit t else []);
            r2 = (case r1 of [] \<Rightarrow> [] | c # t \<Rightarrow> if c = CHR ''.'' then dropWhile is_digit t else r1)
        in if ip = [] \<and> fp = [] then NaN
           else Fin (scale10 (real (digits_val ip) + real (digits_val fp) / 10 ^ length fp)
                       (exponent r2)))"

fun negate :: "jsnum \<Rightarrow> jsnum" where
  "negate NaN = NaN"
| "negate PosInf = NegInf"
| "negate NegInf = PosInf"
| "negate (Fin r) = Fin (- r)"

definition parseFloat_str :: "string \<Rightarrow> jsnum" where
  "parseFloat_str s =
     (case dropWhile is_ws s of
        [] \<Rightarrow> NaN
      | c # t \<Rightarrow>
          if c = CHR ''-'' then negate (unsigned_literal t)
          else if c = CHR ''+'' then unsigned_literal t
          else unsigned_literal (c # t))"

text \<open>\<^verbatim>\<open>parseFloat(v)\<close> first converts \<open>v\<close> to a string.  A number prints and reads back
  as itself.  \<^verbatim>\<open>undefined\<close>, \<^verbatim>\<open>null\<close>, a boolean and an object print as text that starts
  no literal.  An array prints its elements joined by commas, and a comma ends every
  literal, so only the first element counts; an empty array prints as the empty
  string.\<close>

fun parseFloat :: "json \<Rightarrow> jsnum" where
  "parseFloat (JNum n) = n"
| "parseFloat (JStr s) = parseFloat_str s"
| "parseFloat (JArr []) = NaN"
| "parseFloat (JArr (x # xs)) = parseFloat x"
| "parseFloat v = NaN"

subsection \<open>Numbers as strings\<close>

text \<open>\<^verbatim>\<open>n.toString()\<close>.  An integer below \<open>10\<^sup>2\<^sup>1\<close> in absolute value prints as its decimal
  digits.  How any other finite number prints (the shortest digits that read back, exponent
  notation) is a matter of the double and enters as the parameter \<open>fmt\<close>.\<close>

definition digit_char :: "nat \<Rightarrow> char" where
  "digit_char d = char_of (48 + d)"

function decimal :: "nat \<Rightarrow> string" where
  "decimal n = (if n < 10 then [digit_char n] else decimal (n div 10) @ [digit_char (n mod 10)])"
  by pat_completeness auto
termination
  by (relation "measure id") auto

definition Number_toString :: "(real \<Rightarrow> string) \<Rightarrow> jsnum \<Rightarrow> string" where
  "Number_toString fmt n =
     (case n of
        NaN \<Rightarrow> ''NaN''
      | PosInf \<Rightarrow> ''Infinity''
      | NegInf \<Rightarrow> ''-Infinity''
      | Fin r \<Rightarrow>
          if r = of_int \<lfloor>r\<rfloor> \<and> \<bar>r\<bar> < 10 ^ 21 then
            (if r < 0 then ''-'' @ decimal (nat (- \<lfloor>r\<rfloor>)) else decimal (nat \<lfloor>r\<rfloor>))
          else fmt r)"

section \<open>The document store\<close>

text \<open>
  The handlers persist through mongoose models built from three schemas
  (\<^verbatim>\<open>userSchema\<close>, \<^verbatim>\<open>productSchema\<close>, \<^verbatim>\<open>orderSchema\<close>).  The library is not part of the
  repository; it is modelled as a store of documents, one list per collection in
  insertion order, to the extent the schemas declare:
  \<^item> a stored document carries its \<^verbatim>\<open>_id\<close> and, by \<^verbatim>\<open>timestamps: true\<close>, the time of its
    creation and of its last change, next to the paths the schema declares;
  \<^item> a path marked \<^verbatim>\<open>required\<close> must hold a value (for a string: a non-empty one), and a
    number path does not hold \<open>NaN\<close>, or saving fails;
  \<^item> the user's email is declared \<^verbatim>\<open>lowercase: true, trim: true, unique: true\<close>: a value
    written to it and a value it is searched by are lower-cased and trimmed, and no two
    users share one;
  \<^item> a value assigned to a path of a user document, and the \<^verbatim>\<open>fulfilled\<close> of an update of an
    order, is cast to the type the schema declares (\<open>castString\<close>, \<open>castBoolean\<close>); a
    value that cannot be cast makes the save or the update fail, and the handler's
    \<^verbatim>\<open>catch\<close> answers 500;
  \<^item> the values of a new order are stored as the handler supplies them (the cast of the
    customer, the items and the payment fields of an order is not modelled).
  What the library does beyond this enters as the parameters of \<open>library\<close>.  The store is
  always reachable.  The time of a request is an input of its handler.
\<close>

type_synonym oid = nat

record 'a stored =
  ident :: oid
  createdAt :: nat
  updatedAt :: nat
  doc :: 'a

record user =
  name :: json
  nickname :: json
  email :: string
  phone :: json
  addresses :: json
  preferences :: json

record product =
  name_p :: string
  description :: string
  price :: jsnum
  category :: string
  imageUrl :: string

record order =
  customer :: json
  items :: json
  subtotal :: jsnum
  deliveryFee :: jsnum
  deliveryLocation :: json
  total :: jsnum
  paymentMethod :: json
  paymentReference :: json
  paymentStatus :: json
  orderReference :: json
  fulfilled :: json

record state =
  users :: "user stored list"
  products :: "product stored list"
  orders :: "order stored list"
  next_id :: oid

datatype failure = TypeError | ValidationError | DuplicateKey | CastError

text \<open>The parameters of the library and of the language that the repository does not fix:
  \<^item> \<open>lib_ObjectId\<close>: the reading of a route parameter as an \<^verbatim>\<open>_id\<close>, \<open>None\<close> where
    \<^verbatim>\<open>mongoose.Types.ObjectId.isValid\<close> rejects it;
  \<^item> \<open>lib_number\<close>: how a number that is not an integer below \<open>10\<^sup>2\<^sup>1\<close> prints;
  \<^item> \<open>lib_addresses\<close>, \<open>lib_preferences\<close>: the cast of a value assigned to the array of
    addresses and to the nested preferences of a user, from the value the path holds and
    the value assigned, \<open>None\<close> where the cast fails;
  \<^item> \<open>lib_castObjectId\<close>: the cast of a value assigned to \<^verbatim>\<open>_id\<close>, \<open>None\<close> where the cast fails;
  \<^item> \<open>lib_other_key\<close>: what the assignment \<^verbatim>\<open>user[key] = value\<close> does for any other key (a
    property of the document object such as \<^verbatim>\<open>save\<close>, a key the schema does not know): the
    document in memory after it, or \<open>None\<close> when the save that follows fails.\<close>

record library =
  lib_ObjectId :: "string \<Rightarrow> oid option"
  lib_number :: "real \<Rightarrow> string"
  lib_addresses :: "json \<Rightarrow> json \<Rightarrow> json option"
  lib_preferences :: "json \<Rightarrow> json \<Rightarrow> json option"
  lib_castObjectId :: "json \<Rightarrow> oid option"
  lib_other_key :: "string \<Rightarrow> json \<Rightarrow> user stored \<Rightarrow> user stored option"

text \<open>The cast of a value to a \<^verbatim>\<open>String\<close> path: \<^verbatim>\<open>null\<close> and \<^verbatim>\<open>undefined\<close> stay, a string
  stays, a number and a boolean print, an object with a string \<^verbatim>\<open>_id\<close> gives that \<^verbatim>\<open>_id\<close>;
  an array and any other object cannot be cast (\<open>None\<close>).\<close>

fun castString :: "(real \<Rightarrow> string) \<Rightarrow> json \<Rightarrow> json option" where
  "castString fmt JUndefined = Some JUndefined"
| "castString fmt JNull = Some JNull"
| "castString fmt (JStr t) = Some (JStr t)"
| "castString fmt (JNum n) = Some (JStr (Number_toString fmt n))"
| "castString fmt (JBool b) = Some (JStr (if b then ''true'' else ''false''))"
| "castString fmt (JArr xs) = None"
| "castString fmt (JObj kvs) =
     (if is_nonempty_string (lookup kvs ''_id'') then Some (lookup kvs ''_id'') else None)"

text \<open>The cast of a value to a \<^verbatim>\<open>Boolean\<close> path: \<^verbatim>\<open>true\<close>, \<^verbatim>\<open>'true'\<close>, \<^verbatim>\<open>1\<close>, \<^verbatim>\<open>'1'\<close>, \<^verbatim>\<open>'yes'\<close>
  give \<^verbatim>\<open>true\<close>; \<^verbatim>\<open>false\<close>, \<^verbatim>\<open>'false'\<close>, \<^verbatim>\<open>0\<close>, \<^verbatim>\<open>'0'\<close>, \<^verbatim>\<open>'no'\<close> give \<^verbatim>\<open>false\<close>; \<^verbatim>\<open>null\<close> and
  \<^verbatim>\<open>undefined\<close> stay; nothing else can be cast.\<close>

definition castBoolean :: "json \<Rightarrow> json option" where
  "castBoolean v =
     (if v \<in> set [JBool True, JStr ''true'', JNum (Fin 1), JStr ''1'', JStr ''yes'']
      then Some (JBool True)
      else if v \<in> set [JBool False, JStr ''false'', JNum (Fin 0), JStr ''0'', JStr ''no'']
      then Some (JBool False)
      else if v = JNull \<or> v = JUndefined then Some v
      else None)"

text \<open>\<^verbatim>\<open>findById\<close> and the write of a changed document address a document by its \<^verbatim>\<open>_id\<close>.\<close>

definition find_by_id :: "oid \<Rightarrow> 'a stored list \<Rightarrow> 'a stored option" where
  "find_by_id i xs = find (\<lambda>x. ident x = i) xs"

fun replace_by_id :: "oid \<Rightarrow> 'a stored \<Rightarrow> 'a stored list \<Rightarrow> 'a stored list" where
  "replace_by_id i y [] = []"
| "replace_by_id i y (x # xs) = (if ident x = i then y # xs else x # replace_by_id i y xs)"

fun delete_by_id :: "oid \<Rightarrow> 'a stored list \<Rightarrow> 'a stored list" where
  "delete_by_id i [] = []"
| "delete_by_id i (x # xs) = (if ident x = i then xs else x # delete_by_id i xs)"

text \<open>\<^verbatim>\<open>.sort({ createdAt: -1 })\<close>: newest first.\<close>

definition newest_first :: "'a stored list \<Rightarrow> 'a stored list" where
  "newest_first xs = sort_key (\<lambda>x. - int (createdAt x)) xs"

subsection \<open>Users\<close>

definition normalise_email :: "string \<Rightarrow> string" where
  "normalise_email e = trim (toLowerCase e)"

text \<open>\<^verbatim>\<open>User.findOne({ email: q })\<close>.\<close>

definition findOne_user :: "string \<Rightarrow> state \<Rightarrow> user stored option" where
  "findOne_user q s = find (\<lambda>u. email (doc u) = normalise_email q) (users s)"

text \<open>\<^verbatim>\<open>new User(fields).save()\<close>: the defaults of the schema are in \<open>new_user\<close>; saving
  fails when the required email is empty or taken.\<close>

definition new_user :: "string \<Rightarrow> json \<Rightarrow> json \<Rightarrow> json \<Rightarrow> user" where
  "new_user e nick nm ph =
     \<lparr>name = nm, nickname = nick, email = normalise_email e, phone = ph,
      addresses = JArr [],
      preferences = JObj [(''favoriteItems'', JArr []), (''deliveryInstructions'', JStr [])]\<rparr>"

definition insert_user :: "nat \<Rightarrow> user \<Rightarrow> state \<Rightarrow> failure + (user stored \<times> state)" where
  "insert_user now u s =
     (if email u = [] then Inl ValidationError
      else if find (\<lambda>x. email (doc x) = email u) (users s) \<noteq> None then Inl DuplicateKey
      else
        let saved = \<lparr>ident = next_id s, createdAt = now, updatedAt = now, doc = u\<rparr>
        in Inr (saved, s\<lparr>users := users s @ [saved], next_id := Suc (next_id s)\<rparr>))"

text \<open>\<^verbatim>\<open>user.save()\<close> on a document \<open>u\<close> that was found and then assigned to, \<open>m\<close> being the
  document in memory after the assignments, each of which could be cast (an assignment
  that cannot be cast leaves no document to save: see \<open>assign_user\<close>).  The document is
  written back under its \<^verbatim>\<open>_id\<close>, with a new \<^verbatim>\<open>updatedAt\<close> when something has changed.\<close>

definition save_user ::
    "nat \<Rightarrow> user stored \<Rightarrow> user stored \<Rightarrow> state \<Rightarrow> user stored \<times> state" where
  "save_user now u m s =
     (let u' = (if m = u then u else m\<lparr>updatedAt := now\<rparr>)
      in (u', s\<lparr>users := replace_by_id (ident u) u' (users s)\<rparr>))"

subsection \<open>Products\<close>

definition insert_product :: "nat \<Rightarrow> product \<Rightarrow> state \<Rightarrow> product stored \<times> state" where
  "insert_product now p s =
     (let saved = \<lparr>ident = next_id s, createdAt = now, updatedAt = now, doc = p\<rparr>
      in (saved, s\<lparr>products := products s @ [saved], next_id := Suc (next_id s)\<rparr>))"

subsection \<open>Orders\<close>

text \<open>The validator of a \<^verbatim>\<open>required\<close> path.\<close>

definition present :: "json \<Rightarrow> bool" where
  "present v = (v \<noteq> JUndefined \<and> v \<noteq> JNull \<and> v \<noteq> JStr [])"

definition order_valid :: "order \<Rightarrow> bool" where
  "order_valid d =
     (present (get_prop (customer d) ''name'') \<and>
      present (get_prop (customer d) ''address'') \<and>
      present (get_prop (customer d) ''phone'') \<and>
      present (get_prop (customer d) ''email'') \<and>
      \<not> isNaN (subtotal d) \<and> \<not> isNaN (deliveryFee d) \<and> \<not> isNaN (total d) \<and>
      present (paymentMethod d))"

definition insert_order :: "nat \<Rightarrow> order \<Rightarrow> state \<Rightarrow> failure + (order stored \<times> state)" where
  "insert_order now d s =
     (if \<not> order_valid d then Inl ValidationError
      else
        let saved = \<lparr>ident = next_id s, createdAt = now, updatedAt = now, doc = d\<rparr>
        in Inr (saved, s\<lparr>orders := orders s @ [saved], next_id := Suc (next_id s)\<rparr>))"

section \<open>The request handlers\<close>

text \<open>A handler takes the time of the request, what it reads of the request (the body, the
  route parameter, the query parameter, the uploaded file) and the store, and returns the
  reply with the store it leaves.  A reply is the HTTP status, the \<^verbatim>\<open>message\<close> of the JSON
  envelope (empty where the handler sends none) and the document or documents it
  carries.  An exception caught by a handler's \<^verbatim>\<open>catch\<close> is a reply with status 500.\<close>

datatype payload =
    NoData
  | UserData "user stored"
  | UserList "user stored list"
  | DebugList "(oid \<times> string \<times> json \<times> json \<times> nat) list"
  | ProductData "product stored"
  | ProductList "product stored list"
  | OrderData "order stored"
  | OrderList "order stored list"

datatype reply = Reply (status: nat) (message: string) (payload: payload)

fun failure_name :: "failure \<Rightarrow> string" where
  "failure_name TypeError = ''TypeError''"
| "failure_name ValidationError = ''ValidationError''"
| "failure_name DuplicateKey = ''E11000 duplicate key''"
| "failure_name CastError = ''CastError''"

text \<open>\<^verbatim>\<open>typeof v === 'string'\<close>, and the string of such a value.\<close>

fun is_string :: "json \<Rightarrow> bool" where
  "is_string (JStr t) = True"
| "is_string v = False"

fun str_of :: "json \<Rightarrow> string" where
  "str_of (JStr t) = t"
| "str_of v = []"

subsection \<open>Users\<close>

text \<open>\<^verbatim>\<open>POST /api/users/create-basic\<close>.  Calling \<^verbatim>\<open>toLowerCase\<close> or \<^verbatim>\<open>trim\<close> on a value that
  is not a string throws a \<open>TypeError\<close>.\<close>

definition create_basic :: "nat \<Rightarrow> obj \<Rightarrow> state \<Rightarrow> reply \<times> state" where
  "create_basic now body s =
     (let em = lookup body ''email''; nick = lookup body ''nickname'' in
      if \<not> truthy em \<or> \<not> truthy nick then
        (Reply 400 ''Email and nickname required'' NoData, s)
      else if \<not> is_string em then (Reply 500 (failure_name TypeError) NoData, s)
      else
        (case findOne_user (toLowerCase (str_of em)) s of
           Some existing \<Rightarrow> (Reply 200 ''User exists'' (UserData existing), s)
         | None \<Rightarrow>
             if \<not> is_string nick then (Reply 500 (failure_name TypeError) NoData, s)
             else
               (case insert_user now
                       (new_user (trim (toLowerCase (str_of em))) (JStr (trim (str_of nick)))
                          (JStr (trim (str_of nick))) (JStr [])) s of
                  Inl err \<Rightarrow> (Reply 500 (failure_name err) NoData, s)
                | Inr (saved, s') \<Rightarrow>
                    (Reply 201 ''User created successfully'' (UserData saved), s'))))"

text \<open>\<^verbatim>\<open>GET /api/users/:email\<close>.\<close>

definition get_user :: "string \<Rightarrow> state \<Rightarrow> reply \<times> state" where
  "get_user param s =
     (case findOne_user (toLowerCase param) s of
        None \<Rightarrow> (Reply 404 ''User not found'' NoData, s)
      | Some u \<Rightarrow> (Reply 200 [] (UserData u), s))"

text \<open>\<^verbatim>\<open>PATCH /api/users/:email\<close>.  \<open>assign_user\<close> is \<^verbatim>\<open>user[key] = value\<close> on the document
  in memory: on a path of the schema the value is cast to the type of the path, and \<open>None\<close>
  stands for a document whose save will fail; the \<^verbatim>\<open>_id\<close> of a stored document cannot be
  changed, so that assigning it leaves the document as it is when the value is cast to the
  \<^verbatim>\<open>_id\<close> it has and makes the save fail otherwise; any other key is the library's
  (\<open>lib_other_key\<close>).  \<open>patch_fields\<close> is the loop over \<^verbatim>\<open>Object.keys(req.body)\<close>, which has
  each key once.  A save that fails is caught and answered with 500.\<close>

definition assign_user :: "library \<Rightarrow> string \<Rightarrow> json \<Rightarrow> user stored \<Rightarrow> user stored option" where
  "assign_user lib k v m =
     (if k = ''name'' then
        map_option (\<lambda>c. m\<lparr>doc := (doc m)\<lparr>name := c\<rparr>\<rparr>) (castString (lib_number lib) v)
      else if k = ''nickname'' then
        map_option (\<lambda>c. m\<lparr>doc := (doc m)\<lparr>nickname := c\<rparr>\<rparr>) (castString (lib_number lib) v)
      else if k = ''phone'' then
        map_option (\<lambda>c. m\<lparr>doc := (doc m)\<lparr>phone := c\<rparr>\<rparr>) (castString (lib_number lib) v)
      else if k = ''addresses'' then
        map_option (\<lambda>c. m\<lparr>doc := (doc m)\<lparr>addresses := c\<rparr>\<rparr>)
          (lib_addresses lib (addresses (doc m)) v)
      else if k = ''preferences'' then
        map_option (\<lambda>c. m\<lparr>doc := (doc m)\<lparr>preferences := c\<rparr>\<rparr>)
          (lib_preferences lib (preferences (doc m)) v)
      else if k = ''_id'' then
        (if lib_castObjectId lib v = Some (ident m) then Some m else None)
      else lib_other_key lib k v m)"

definition patch_step :: "library \<Rightarrow> obj \<Rightarrow> string \<Rightarrow> user stored option \<Rightarrow> user stored option" where
  "patch_step lib body k acc =
     (case acc of
        None \<Rightarrow> None
      | Some m \<Rightarrow>
          if lookup body k \<noteq> JUndefined \<and> k \<noteq> ''email''
          then assign_user lib k (lookup body k) m else Some m)"

definition patch_fields :: "library \<Rightarrow> obj \<Rightarrow> user stored \<Rightarrow> user stored option" where
  "patch_fields lib body u = fold (patch_step lib body) (remdups (map fst body)) (Some u)"

definition patch_user :: "library \<Rightarrow> nat \<Rightarrow> string \<Rightarrow> obj \<Rightarrow> state \<Rightarrow> reply \<times> state" where
  "patch_user lib now param body s =
     (case findOne_user (toLowerCase param) s of
        None \<Rightarrow> (Reply 404 ''User not found'' NoData, s)
      | Some u \<Rightarrow>
          (case patch_fields lib body u of
             None \<Rightarrow> (Reply 500 (failure_name ValidationError) NoData, s)
           | Some m \<Rightarrow>
               (case save_user now u m s of
                  (updated, s') \<Rightarrow>
                    (Reply 200 ''User updated successfully'' (UserData updated), s'))))"

text \<open>\<^verbatim>\<open>POST /api/users/register\<close>.  On an existing user the handler assigns \<^verbatim>\<open>name\<close> and
  \<^verbatim>\<open>phone\<close>, and \<^verbatim>\<open>nickname\<close> when \<^verbatim>\<open>!user.nickname\<close>, and saves; \<^verbatim>\<open>name.split\<close> throws on a
  name that is not a string, and the save fails when the name or the phone cannot be cast:
  both are caught and answered with 500, and nothing is stored.  A new user is built from
  the name, which \<^verbatim>\<open>name.split\<close> needs to be a string, and the phone, which is cast.\<close>

definition register :: "library \<Rightarrow> nat \<Rightarrow> obj \<Rightarrow> state \<Rightarrow> reply \<times> state" where
  "register lib now body s =
     (let nm = lookup body ''name''; em = lookup body ''email''; ph = lookup body ''phone'' in
      if \<not> truthy nm \<or> \<not> truthy em \<or> \<not> truthy ph then
        (Reply 400 ''Name, email, and phone are required'' NoData, s)
      else if \<not> is_string em then (Reply 500 ''Failed to register user'' NoData, s)
      else
        (case findOne_user (toLowerCase (str_of em)) s of
           Some u \<Rightarrow>
             if \<not> truthy (nickname (doc u)) \<and> \<not> is_string nm then
               (Reply 500 ''Failed to register user'' NoData, s)
             else
               (case Option.bind (assign_user lib ''name'' nm u) (assign_user lib ''phone'' ph) of
                  None \<Rightarrow> (Reply 500 ''Failed to register user'' NoData, s)
                | Some m \<Rightarrow>
                    (case save_user now u
                            (if truthy (nickname (doc u)) then m
                             else m\<lparr>doc := (doc m)\<lparr>nickname :=
                                                    JStr (split_space_first (str_of nm))\<rparr>\<rparr>) s of
                       (u', s') \<Rightarrow>
                         (Reply 200 ''User updated successfully'' (UserData u'), s')))
         | None \<Rightarrow>
             if \<not> is_string nm then (Reply 500 ''Failed to register user'' NoData, s)
             else
               (case castString (lib_number lib) ph of
                  None \<Rightarrow> (Reply 500 ''Failed to register user'' NoData, s)
                | Some p \<Rightarrow>
                    (case insert_user now
                            (new_user (toLowerCase (str_of em))
                               (JStr (split_space_first (str_of nm))) nm p) s of
                       Inl err \<Rightarrow> (Reply 500 ''Failed to register user'' NoData, s)
                     | Inr (saved, s') \<Rightarrow>
                         (Reply 201 ''User registered successfully'' (UserData saved), s')))))"

text \<open>\<^verbatim>\<open>GET /api/users\<close> and \<^verbatim>\<open>GET /api/debug/users\<close>.\<close>

definition list_users :: "state \<Rightarrow> reply \<times> state" where
  "list_users s = (Reply 200 [] (UserList (newest_first (users s))), s)"

definition debug_users :: "state \<Rightarrow> reply \<times> state" where
  "debug_users s =
     (Reply 200 []
        (DebugList (map (\<lambda>u. (ident u, email (doc u), nickname (doc u), name (doc u), createdAt u))
                      (users s))), s)"

subsection \<open>Products\<close>

text \<open>\<^verbatim>\<open>POST /api/products\<close>.  \<open>file\<close> is the name under which \<^verbatim>\<open>upload.single('image')\<close>
  stored an attached image, if one was attached.\<close>

definition create_product :: "nat \<Rightarrow> obj \<Rightarrow> string option \<Rightarrow> state \<Rightarrow> reply \<times> state" where
  "create_product now body file s =
     (let nm = lookup body ''name''; ds = lookup body ''description'';
          pr = lookup body ''price''; ct = lookup body ''category'' in
      if \<not> truthy nm \<or> \<not> is_string nm \<or> trim (str_of nm) = [] then
        (Reply 400 ''Product name is required'' NoData, s)
      else if \<not> truthy ds \<or> \<not> is_string ds \<or> trim (str_of ds) = [] then
        (Reply 400 ''Product description is required'' NoData, s)
      else if \<not> truthy pr \<or> isNaN (parseFloat pr) then
        (Reply 400 ''Valid product price is required'' NoData, s)
      else if \<not> truthy ct \<or> \<not> is_string ct \<or> trim (str_of ct) = [] then
        (Reply 400 ''Product category is required'' NoData, s)
      else
        let imagePath = (case file of Some f \<Rightarrow> ''/uploads/'' @ f | None \<Rightarrow> []);
            productData = \<lparr>name_p = trim (str_of nm), description = trim (str_of ds),
                           price = parseFloat pr, category = trim (str_of ct),
                           imageUrl = imagePath\<rparr>
        in (case insert_product now productData s of
              (savedProduct, s') \<Rightarrow>
                (Reply 201 ''Product uploaded successfully'' (ProductData savedProduct), s')))"

text \<open>\<^verbatim>\<open>GET /api/products\<close>.\<close>

definition list_products :: "state \<Rightarrow> reply \<times> state" where
  "list_products s = (Reply 200 [] (ProductList (newest_first (products s))), s)"

text \<open>\<^verbatim>\<open>DELETE /api/products/:id\<close>.  The conversion of the route parameter to an \<^verbatim>\<open>_id\<close> is
  the library's and enters as the parameter \<open>ObjectId\<close> (\<open>None\<close> where the parameter is
  not a well-formed identifier); \<^verbatim>\<open>findByIdAndDelete\<close> throws on such a parameter.\<close>

definition delete_product :: "(string \<Rightarrow> oid option) \<Rightarrow> string \<Rightarrow> state \<Rightarrow> reply \<times> state" where
  "delete_product ObjectId param s =
     (case ObjectId param of
        None \<Rightarrow> (Reply 500 ''Failed to delete product'' NoData, s)
      | Some i \<Rightarrow>
          (case find_by_id i (products s) of
             None \<Rightarrow> (Reply 404 ''Product not found'' NoData, s)
           | Some deleted \<Rightarrow>
               (Reply 200 ''Product deleted successfully'' NoData,
                s\<lparr>products := delete_by_id i (products s)\<rparr>)))"

subsection \<open>Orders\<close>

text \<open>\<^verbatim>\<open>POST /api/orders\<close>.\<close>

definition create_order :: "nat \<Rightarrow> obj \<Rightarrow> state \<Rightarrow> reply \<times> state" where
  "create_order now body s =
     (let order = JObj body in
      if \<not> truthy order \<or> \<not> truthy (get_prop order ''customer'') \<or>
         \<not> truthy (get_prop order ''items'') \<or>
         get_prop (get_prop order ''items'') ''length'' = JNum (Fin 0) then
        (Reply 400 ''Invalid order data'' NoData, s)
      else if \<not> truthy (get_prop (get_prop order ''customer'') ''email'') then
        (Reply 400 ''Customer email is required'' NoData, s)
      else
        let orderData =
              \<lparr>customer =
                 JObj [(''name'', get_prop (get_prop order ''customer'') ''name''),
                       (''address'', get_prop (get_prop order ''customer'') ''address''),
                       (''phone'', get_prop (get_prop order ''customer'') ''phone''),
                       (''email'', get_prop (get_prop order ''customer'') ''email'')],
               items = get_prop order ''items'',
               subtotal = num_or (parseFloat (get_prop order ''subtotal''))
                                 (parseFloat (get_prop order ''total'')),
               deliveryFee = num_or (parseFloat (get_prop order ''deliveryFee'')) (Fin 0),
               deliveryLocation = js_or (get_prop order ''deliveryLocation'') JNull,
               total = parseFloat (get_prop order ''total''),
               paymentMethod = get_prop order ''paymentMethod'',
               paymentReference = js_or (get_prop order ''paymentReference'') JNull,
               paymentStatus = js_or (get_prop order ''paymentStatus'') (JStr ''pending''),
               orderReference = js_or (get_prop order ''orderReference'') JNull,
               fulfilled = JBool False\<rparr>
        in (case insert_order now orderData s of
              Inl err \<Rightarrow> (Reply 500 ''Failed to save order'' NoData, s)
            | Inr (newOrder, s') \<Rightarrow>
                (Reply 201 ''Order placed successfully'' (OrderData newOrder), s')))"

text \<open>\<^verbatim>\<open>GET /api/orders\<close>.  \<open>q\<close> is \<^verbatim>\<open>req.query.email\<close>, \<open>None\<close> when the query has no such
  parameter; \<open>order_filter\<close> is the filter the handler passes to \<^verbatim>\<open>Order.find\<close>.\<close>

definition order_filter :: "string option \<Rightarrow> order stored \<Rightarrow> bool" where
  "order_filter q x =
     (case q of
        None \<Rightarrow> True
      | Some e \<Rightarrow> if e \<noteq> [] then get_prop (customer (doc x)) ''email'' = JStr e else True)"

definition list_orders :: "string option \<Rightarrow> state \<Rightarrow> reply \<times> state" where
  "list_orders q s = (Reply 200 [] (OrderList (newest_first (filter (order_filter q) (orders s)))), s)"

text \<open>\<^verbatim>\<open>PATCH /api/orders/:id\<close>.  \<open>ObjectId param = None\<close> is
  \<^verbatim>\<open>!mongoose.Types.ObjectId.isValid(id)\<close>.  \<^verbatim>\<open>findByIdAndUpdate\<close> casts the update before it
  looks for the order, and throws when \<^verbatim>\<open>fulfilled\<close> cannot be cast to a boolean: the
  \<^verbatim>\<open>catch\<close> answers 500.  With \<^verbatim>\<open>{ new: true }\<close> it writes the cast \<^verbatim>\<open>fulfilled\<close> (nothing
  when the body has none: an \<^verbatim>\<open>undefined\<close> is dropped from the update), stamps \<^verbatim>\<open>updatedAt\<close>
  and returns the document as changed.\<close>

definition patch_order ::
    "(string \<Rightarrow> oid option) \<Rightarrow> nat \<Rightarrow> string \<Rightarrow> obj \<Rightarrow> state \<Rightarrow> reply \<times> state" where
  "patch_order ObjectId now param body s =
     (let fulfilled_v = lookup body ''fulfilled'' in
      case ObjectId param of
        None \<Rightarrow> (Reply 400 ''Invalid order ID'' NoData, s)
      | Some i \<Rightarrow>
          (case castBoolean fulfilled_v of
             None \<Rightarrow> (Reply 500 ''Failed to update order status'' NoData, s)
           | Some c \<Rightarrow>
               (case find_by_id i (orders s) of
                  None \<Rightarrow> (Reply 404 ''Order not found'' NoData, s)
                | Some found \<Rightarrow>
                    let updatedOrder =
                          found\<lparr>updatedAt := now,
                                doc := (if c = JUndefined then doc found
                                        else (doc found)\<lparr>fulfilled := c\<rparr>)\<rparr>
                    in (Reply 200 ''Order status updated successfully'' (OrderData updatedOrder),
                        s\<lparr>orders := replace_by_id i updatedOrder (orders s)\<rparr>))))"

subsection \<open>Routing\<close>

text \<open>The routes of the server.  \<open>Root\<close>, \<open>ApiTest\<close> and \<open>Health\<close> stand for \<^verbatim>\<open>GET /\<close>,
  \<^verbatim>\<open>GET /api/test\<close> and \<^verbatim>\<open>GET /api/health\<close>, which read no collection, and \<open>Unmatched\<close> for a
  request that reaches the final 404 handler.\<close>

datatype request =
    CreateBasic obj
  | GetUser string
  | PatchUser string obj
  | Register obj
  | ListUsers
  | DebugUsers
  | CreateProduct obj "string option"
  | ListProducts
  | DeleteProduct string
  | CreateOrder obj
  | ListOrders "string option"
  | PatchOrder string obj
  | Root
  | ApiTest
  | Health
  | Unmatched

fun handle :: "library \<Rightarrow> nat \<Rightarrow> request \<Rightarrow> state \<Rightarrow> reply \<times> state" where
  "handle lib now (CreateBasic body) s = create_basic now body s"
| "handle lib now (GetUser param) s = get_user param s"
| "handle lib now (PatchUser param body) s = patch_user lib now param body s"
| "handle lib now (Register body) s = register lib now body s"
| "handle lib now ListUsers s = list_users s"
| "handle lib now DebugUsers s = debug_users s"
| "handle lib now (CreateProduct body file) s = create_product now body file s"
| "handle lib now ListProducts s = list_products s"
| "handle lib now (DeleteProduct param) s = delete_product (lib_ObjectId lib) param s"
| "handle lib now (CreateOrder body) s = create_order now body s"
| "handle lib now (ListOrders q) s = list_orders q s"
| "handle lib now (PatchOrder param body) s = patch_order (lib_ObjectId lib) now param body s"
| "handle lib now Root s = (Reply 200 ''OBIGGRILLS API Server'' NoData, s)"
| "handle lib now ApiTest s = (Reply 200 ''OBIGGRILLS API working perfectly!'' NoData, s)"
| "handle lib now Health s = (Reply 200 [] NoData, s)"
| "handle lib now Unmatched s = (Reply 404 ''Route not found'' NoData, s)"

section \<open>Notions used to state the properties\<close>

text \<open>The one route that writes \<^verbatim>\<open>fulfilled\<close> on a stored order.\<close>

fun is_patch_order :: "request \<Rightarrow> bool" where
  "is_patch_order (PatchOrder param body) = True"
| "is_patch_order req = False"



text \<open>The cast of a value assigned to a path of the user schema, on a document \<open>d\<close>: the
  name, the nickname and the phone are \<^verbatim>\<open>String\<close> paths.\<close>

definition cast_user_path :: "library \<Rightarrow> string \<Rightarrow> user \<Rightarrow> json \<Rightarrow> json option" where
  "cast_user_path lib k d v =
     (if k = ''addresses'' then lib_addresses lib (addresses d) v
      else if k = ''preferences'' then lib_preferences lib (preferences d) v
      else castString (lib_number lib) v)"



text \<open>The guard \<^verbatim>\<open>!v || typeof v !== 'string' || v.trim() === ''\<close> that \<^verbatim>\<open>POST /api/products\<close>
  applies to the name, the description and the category.\<close>

definition missing_text :: "json \<Rightarrow> bool" where
  "missing_text v = (\<not> truthy v \<or> \<not> is_string v \<or> trim (str_of v) = [])"

section \<open>Readings of the specification\<close>

text \<open>The rule the specification gives for the stored subtotal: the subtotal of the request
  parsed as a number, and the total parsed as a number exactly when the subtotal is absent
  or not numeric.\<close>

definition spec_subtotal :: "obj \<Rightarrow> jsnum" where
  "spec_subtotal body =
     (if isNaN (parseFloat (lookup body ''subtotal'')) then parseFloat (lookup body ''total'')
      else parseFloat (lookup body ''subtotal''))"

text \<open>The specification's ``first whitespace-delimited token'' of a name.\<close>

definition spec_first_token :: "string \<Rightarrow> string" where
  "spec_first_token n = takeWhile (\<lambda>c. \<not> is_ws c) (dropWhile is_ws n)"

text \<open>The requests the specification says \<^verbatim>\<open>POST /api/products\<close> rejects: a name, description
  or category that is missing or empty after trimming, or a price that does not parse as a
  finite number.\<close>

fun spec_missing_or_empty :: "json \<Rightarrow> bool" where
  "spec_missing_or_empty JUndefined = True"
| "spec_missing_or_empty JNull = True"
| "spec_missing_or_empty (JStr t) = (trim t = [])"
| "spec_missing_or_empty v = False"

definition spec_product_rejected :: "obj \<Rightarrow> bool" where
  "spec_product_rejected body =
     (spec_missing_or_empty (lookup body ''name'') \<or>
      spec_missing_or_empty (lookup body ''description'') \<or>
      spec_missing_or_empty (lookup body ''category'') \<or>
      \<not> isFinite (parseFloat (lookup body ''price'')))"

section \<open>Sample stores and requests\<close>

text \<open>Sample data: an empty store, the order of the specification's scenario, and a reading
  of route parameters as identifiers.\<close>

definition empty_store :: state where
  "empty_store = \<lparr>users = [], products = [], orders = [], next_id = 0\<rparr>"

definition scenario_order :: obj where
  "scenario_order =
     [(''customer'', JObj [(''name'', JStr ''A''), (''address'', JStr ''X''),
                           (''phone'', JStr ''1''), (''email'', JStr ''a@b.com'')]),
      (''items'', JArr [JObj [(''id'', JStr ''1''), (''name'', JStr ''Burger''),
                              (''price'', JNum (Fin 5)), (''quantity'', JNum (Fin 2))]]),
      (''total'', JNum (Fin 10)),
      (''paymentMethod'', JStr ''cash'')]"

definition sample_ObjectId :: "string \<Rightarrow> oid option" where
  "sample_ObjectId p =
     (if p = ''000000000000000000000000'' then Some 0
      else if p = ''000000000000000000000001'' then Some 1
      else None)"

text \<open>A sample of the library's parameters for the sample runs: the addresses must be an
  array and the preferences an object, a string is cast to an \<^verbatim>\<open>_id\<close> as a route parameter
  is read, and a key the schema does not know is not stored.\<close>

definition sample_library :: library where
  "sample_library =
     \<lparr>lib_ObjectId = sample_ObjectId,
      lib_number = (\<lambda>r. ''0.5''),
      lib_addresses = (\<lambda>old v. case v of JArr xs \<Rightarrow> Some v | _ \<Rightarrow> None),
      lib_preferences = (\<lambda>old v. case v of JObj kvs \<Rightarrow> Some v | _ \<Rightarrow> None),
      lib_castObjectId = (\<lambda>v. case v of JStr t \<Rightarrow> sample_ObjectId t | _ \<Rightarrow> None),
      lib_other_key = (\<lambda>k v m. Some m)\<rparr>"

definition sample_product :: obj where
  "sample_product =
     [(''name'', JStr ''Suya''), (''description'', JStr ''Grilled beef''),
      (''category'', JStr ''Grills'')]"

definition zero_subtotal_order :: obj where
  "zero_subtotal_order = (''subtotal'', JNum (Fin 0)) # scenario_order"

definition fulfilled_order :: obj where
  "fulfilled_order = (''fulfilled'', JBool True) # scenario_order"

definition one_order_store :: state where
  "one_order_store = snd (create_order 7 scenario_order empty_store)"

definition basic_first :: obj where
  "basic_first = [(''email'', JStr ''A@b.Com''), (''nickname'', JStr '' Al'')]"

definition basic_second :: obj where
  "basic_second = [(''email'', JStr ''A@b.Com''), (''nickname'', JStr ''Bob'')]"

text \<open>A store with one user whose nickname is empty (the nickname was a single space, which
  \<^verbatim>\<open>create-basic\<close> trims), and registrations of that user.\<close>

definition blank_nick_store :: state where
  "blank_nick_store =
     snd (create_basic 3 [(''email'', JStr ''ada@example.com''), (''nickname'', JStr '' '')]
            empty_store)"

definition register_space :: obj where
  "register_space =
     [(''name'', JStr ''Ada Lovelace''), (''email'', JStr ''Ada@Example.com''),
      (''phone'', JStr ''0801'')]"

definition tab_name :: string where
  "tab_name = ''Ada'' @ [CHR 0x09] @ ''Lovelace''"

definition register_tab :: obj where
  "register_tab =
     [(''name'', JStr tab_name), (''email'', JStr ''Ada@Example.com''),
      (''phone'', JStr ''0801'')]"


text \<open>Bodies with a phone that is a number, with a name that is an object, and with the
  \<^verbatim>\<open>_id\<close> of another document.\<close>

definition register_number_phone :: obj where
  "register_number_phone =
     [(''name'', JStr ''Ada Lovelace''), (''email'', JStr ''Ada@Example.com''),
      (''phone'', JNum (Fin 802))]"

definition register_object_name :: obj where
  "register_object_name =
     [(''name'', JObj [(''first'', JStr ''Ada'')]), (''email'', JStr ''Ada@Example.com''),
      (''phone'', JStr ''0801'')]"




definition zero_price_product :: obj where
  "zero_price_product = (''price'', JNum (Fin 0)) # sample_product"

definition infinity_product :: obj where
  "infinity_product = (''price'', JStr ''Infinity'') # sample_product"

definition priced_product :: obj where
  "priced_product = (''price'', JStr ''12.50'') # sample_product"

definition numeric_name_product :: obj where
  "numeric_name_product = (''name'', JNum (Fin 5)) # priced_product"

text \<open>A store with two orders, the second placed later under an email that differs from
  the first in case only, and a user.\<close>

definition upper_order :: obj where
  "upper_order =
     [(''customer'', JObj [(''name'', JStr ''B''), (''address'', JStr ''Y''),
                           (''phone'', JStr ''2''), (''email'', JStr ''A@B.com'')]),
      (''items'', JArr [JObj [(''id'', JStr ''1''), (''name'', JStr ''Burger''),
                              (''price'', JNum (Fin 5)), (''quantity'', JNum (Fin 1))]]),
      (''total'', JNum (Fin 5)),
      (''paymentMethod'', JStr ''cash'')]"

definition two_order_store :: state where
  "two_order_store =
     snd (create_basic 9 [(''email'', JStr ''a@b.com''), (''nickname'', JStr ''A'')]
            (snd (create_order 8 upper_order one_order_store)))"

section \<open>Auxiliary facts\<close>

lemma lookup_Cons: "lookup ((k, v) # kvs) k' = (if k' = k then v else lookup kvs k')"
  by (simp add: lookup_def)

lemma num_or_eq: "num_or a b = (if a = NaN \<or> a = Fin 0 then b else a)"
  by (cases a) (simp_all add: num_or_def)

lemma insert_order_Inr:
  "insert_order now d s = Inr (x, s') \<Longrightarrow>
     doc x = d \<and> orders s' = orders s @ [x] \<and> users s' = users s \<and> products s' = products s"
  by (auto simp add: insert_order_def Let_def split: if_splits)

text \<open>What \<^verbatim>\<open>POST /api/orders\<close> has done when it answers 201.\<close>

lemma create_order_201:
  assumes "create_order now body s = (r, s')" and "status r = 201"
  shows "\<exists>x. r = Reply 201 ''Order placed successfully'' (OrderData x) \<and>
           orders s' = orders s @ [x] \<and> users s' = users s \<and> products s' = products s \<and>
           subtotal (doc x) =
             num_or (parseFloat (lookup body ''subtotal'')) (parseFloat (lookup body ''total'')) \<and>
           deliveryFee (doc x) = num_or (parseFloat (lookup body ''deliveryFee'')) (Fin 0) \<and>
           fulfilled (doc x) = JBool False"
  using assms
  by (auto simp add: create_order_def Let_def split: if_splits sum.splits dest!: insert_order_Inr)

lemma scenario_run:
  "create_order 7 scenario_order empty_store =
     (fst (create_order 7 scenario_order empty_store),
      snd (create_order 7 scenario_order empty_store))"
  by simp

section \<open>Orders: creation\<close>

text \<open>
  C1, as the code has it.  For every request that \<^verbatim>\<open>POST /api/orders\<close> accepts (status 201),
  the stored subtotal is the request's subtotal parsed as a number, and the request's total
  parsed as a number exactly when the parsed subtotal is \<open>NaN\<close> (absent or not numeric) or
  zero; the stored delivery fee is the request's delivery fee parsed as a number, and 0
  exactly when that is \<open>NaN\<close>.
\<close>

theorem create_order_subtotal_and_fee:
  assumes "create_order now body s = (r, s')" and "status r = 201"
  shows "\<exists>newOrder. payload r = OrderData newOrder \<and> orders s' = orders s @ [newOrder] \<and>
           subtotal (doc newOrder) =
             (if parseFloat (lookup body ''subtotal'') = NaN \<or>
                 parseFloat (lookup body ''subtotal'') = Fin 0
              then parseFloat (lookup body ''total'')
              else parseFloat (lookup body ''subtotal'')) \<and>
           deliveryFee (doc newOrder) =
             (if parseFloat (lookup body ''deliveryFee'') = NaN then Fin 0
              else parseFloat (lookup body ''deliveryFee''))"
proof -
  from create_order_201 [OF assms] obtain x where
    x: "r = Reply 201 ''Order placed successfully'' (OrderData x)" "orders s' = orders s @ [x]"
      "subtotal (doc x) =
         num_or (parseFloat (lookup body ''subtotal'')) (parseFloat (lookup body ''total''))"
      "deliveryFee (doc x) = num_or (parseFloat (lookup body ''deliveryFee'')) (Fin 0)"
    by blast
  show ?thesis
    using x by (auto simp add: num_or_eq)
qed

text \<open>The scenario of the specification: total 10 and neither subtotal nor delivery fee
  gives a stored subtotal of 10, a delivery fee of 0, and \<^verbatim>\<open>fulfilled: false\<close>.\<close>

theorem create_order_subtotal_and_fee_witness:
  "map (subtotal \<circ> doc) (orders (snd (create_order 7 scenario_order empty_store))) = [Fin 10] \<and>
   map (deliveryFee \<circ> doc) (orders (snd (create_order 7 scenario_order empty_store))) = [Fin 0] \<and>
   map (fulfilled \<circ> doc) (orders (snd (create_order 7 scenario_order empty_store))) = [JBool False]"
proof -
  have st: "status (fst (create_order 7 scenario_order empty_store)) = 201"
    by code_simp
  have ff: "map (fulfilled \<circ> doc) (orders (snd (create_order 7 scenario_order empty_store)))
              = [JBool False]"
    by code_simp
  have pf: "parseFloat (lookup scenario_order ''subtotal'') = NaN"
     "parseFloat (lookup scenario_order ''total'') = Fin 10"
     "parseFloat (lookup scenario_order ''deliveryFee'') = NaN"
    by (simp_all add: scenario_order_def lookup_def)
  from create_order_subtotal_and_fee [OF scenario_run st] ff
  show ?thesis
    by (auto simp add: pf empty_store_def)
qed

text \<open>C1 as the specification words it fails: a request with subtotal 0 and total 10 is
  accepted and stored with subtotal 10, where the rule of the specification gives 0.\<close>

theorem subtotal_zero_counterexample:
  "status (fst (create_order 7 zero_subtotal_order empty_store)) = 201 \<and>
   map (subtotal \<circ> doc) (orders (snd (create_order 7 zero_subtotal_order empty_store))) = [Fin 10] \<and>
   spec_subtotal zero_subtotal_order = Fin 0"
  by code_simp

text \<open>
  C5.  \<^verbatim>\<open>POST /api/orders\<close> answers 400 and leaves the store as it was for every request
  whose \<^verbatim>\<open>items\<close> is missing or an empty sequence, and for every request whose
  \<^verbatim>\<open>customer.email\<close> is absent, whatever its other fields are.
\<close>

theorem create_order_rejects:
  assumes "lookup body ''items'' = JUndefined \<or> lookup body ''items'' = JArr [] \<or>
           get_prop (lookup body ''customer'') ''email'' = JUndefined"
  shows "status (fst (create_order now body s)) = 400 \<and> snd (create_order now body s) = s"
  using assms by (auto simp add: create_order_def Let_def)

text \<open>The order of the scenario with its items emptied, and with a customer that has no
  email.\<close>

theorem create_order_rejects_witness:
  "status (fst (create_order 7 ((''items'', JArr []) # scenario_order) empty_store)) = 400 \<and>
   snd (create_order 7 ((''items'', JArr []) # scenario_order) empty_store) = empty_store \<and>
   status (fst (create_order 7 ((''customer'', JObj [(''name'', JStr ''A'')]) # scenario_order)
                  empty_store)) = 400 \<and>
   snd (create_order 7 ((''customer'', JObj [(''name'', JStr ''A'')]) # scenario_order)
          empty_store) = empty_store"
  using create_order_rejects [of "(''items'', JArr []) # scenario_order" 7 empty_store]
    create_order_rejects [of "(''customer'', JObj [(''name'', JStr ''A'')]) # scenario_order" 7
      empty_store]
  by (simp add: lookup_Cons lookup_def)

text \<open>The handlers other than the two for orders leave the orders as they are.\<close>

lemma create_order_other:
  assumes "create_order now body s = (r, s')" and "status r \<noteq> 201"
  shows "s' = s"
  using assms
  by (auto simp add: create_order_def Let_def split: if_splits sum.splits)

lemma insert_user_Inr:
  "insert_user now d s = Inr (x, s') \<Longrightarrow>
     x = \<lparr>ident = next_id s, createdAt = now, updatedAt = now, doc = d\<rparr> \<and>
     users s' = users s @ [x] \<and> orders s' = orders s \<and> products s' = products s"
  by (auto simp add: insert_user_def Let_def split: if_splits)

lemma save_user_frame:
  "save_user now u m s = (u', s') \<Longrightarrow> orders s' = orders s \<and> products s' = products s"
  by (auto simp add: save_user_def Let_def)

lemma create_basic_orders: "create_basic now body s = (r, s') \<Longrightarrow> orders s' = orders s"
  by (auto simp add: create_basic_def Let_def split: if_splits option.splits sum.splits
        dest!: insert_user_Inr)

lemma register_orders: "register lib now body s = (r, s') \<Longrightarrow> orders s' = orders s"
  by (auto simp add: register_def Let_def split: if_splits option.splits sum.splits prod.splits
        dest!: insert_user_Inr save_user_frame)

lemma patch_user_orders:
  "patch_user lib now param body s = (r, s') \<Longrightarrow> orders s' = orders s"
  by (auto simp add: patch_user_def split: option.splits prod.splits dest!: save_user_frame)

lemma create_product_orders:
  "create_product now body file s = (r, s') \<Longrightarrow> orders s' = orders s"
  by (auto simp add: create_product_def insert_product_def Let_def split: if_splits)

lemma delete_product_orders: "delete_product f param s = (r, s') \<Longrightarrow> orders s' = orders s"
  by (auto simp add: delete_product_def split: option.splits)

text \<open>
  C2.  A request to any route but \<^verbatim>\<open>PATCH /api/orders/:id\<close> leaves every stored order as it
  was, \<^verbatim>\<open>fulfilled\<close> included, and whatever it adds to the orders has \<^verbatim>\<open>fulfilled = false\<close>;
  an order that \<^verbatim>\<open>POST /api/orders\<close> creates is the one order added, whatever the body says
  about \<^verbatim>\<open>fulfilled\<close>.
\<close>

theorem fulfilled_only_by_patch_order:
  assumes "handle lib now req s = (r, s')" and "\<not> is_patch_order req"
  shows "\<exists>new. orders s' = orders s @ new \<and>
           list_all (\<lambda>x. fulfilled (doc x) = JBool False) new \<and>
           (\<forall>body. req = CreateOrder body \<and> status r = 201 \<longrightarrow>
              (\<exists>x. new = [x] \<and> payload r = OrderData x))"
proof (cases req)
  case (CreateOrder body)
  show ?thesis
  proof (cases "status r = 201")
    case True
    with assms CreateOrder have "create_order now body s = (r, s')" by simp
    from create_order_201 [OF this True] obtain x where
      "r = Reply 201 ''Order placed successfully'' (OrderData x)"
      "orders s' = orders s @ [x]" "fulfilled (doc x) = JBool False"
      by blast
    then show ?thesis by auto
  next
    case False
    with assms CreateOrder have "s' = s" by (auto dest: create_order_other)
    with False show ?thesis by auto
  qed
qed (use assms in \<open>auto simp add: get_user_def list_users_def debug_users_def list_products_def
      list_orders_def split: option.splits
      dest: create_basic_orders register_orders patch_user_orders create_product_orders
        delete_product_orders\<close>)

lemma fulfilled_run:
  "handle sample_library 7 (CreateOrder fulfilled_order) empty_store =
     (fst (handle sample_library 7 (CreateOrder fulfilled_order) empty_store),
      snd (handle sample_library 7 (CreateOrder fulfilled_order) empty_store))"
  by simp

text \<open>A body that asks for \<^verbatim>\<open>fulfilled: true\<close> is stored with \<^verbatim>\<open>fulfilled: false\<close>.\<close>

theorem fulfilled_only_by_patch_order_witness:
  "lookup fulfilled_order ''fulfilled'' = JBool True \<and>
   length (orders (snd (handle sample_library 7 (CreateOrder fulfilled_order) empty_store))) = 1 \<and>
   list_all (\<lambda>x. fulfilled (doc x) = JBool False)
     (orders (snd (handle sample_library 7 (CreateOrder fulfilled_order) empty_store)))"
proof -
  have a: "lookup fulfilled_order ''fulfilled'' = JBool True"
    by (simp add: fulfilled_order_def lookup_def)
  have b: "length (orders (snd (handle sample_library 7 (CreateOrder fulfilled_order)
             empty_store))) = 1"
    by code_simp
  have c: "\<not> is_patch_order (CreateOrder fulfilled_order)" by simp
  from fulfilled_only_by_patch_order [OF fulfilled_run c] a b
  show ?thesis by (auto simp add: empty_store_def)
qed

section \<open>Orders: the status update\<close>



text \<open>A document that was found is in the collection, so writing it back under its \<^verbatim>\<open>_id\<close>
  stores what is written.\<close>

lemma stored_after_replace:
  "find P xs = Some u \<Longrightarrow> y \<in> set (replace_by_id (ident u) y xs)"
  by (induction xs) (auto split: if_splits)


text \<open>A value of \<^verbatim>\<open>fulfilled\<close> that cannot be cast to a boolean fails the update before any
  order is looked up: with a well-formed identifier the answer is 500, whether an order has
  it or not, and the store is as before.\<close>

lemma patch_order_cast_failure:
  assumes "ObjectId param = Some i" and "castBoolean (lookup body ''fulfilled'') = None"
  shows "patch_order ObjectId now param body s =
           (Reply 500 ''Failed to update order status'' NoData, s)"
  using assms by (simp add: patch_order_def)




section \<open>Users\<close>

text \<open>Lower-casing and trimming commute and are idempotent, so the email a user is stored
  under is the email the user is found by.\<close>

lemma lower_char_idem: "lower_char (lower_char c) = lower_char c"
  by (simp add: lower_char_def Let_def)

lemma is_ws_lower_char: "is_ws (lower_char c) = is_ws c"
  by (auto simp add: lower_char_def Let_def is_ws_def)

lemma toLowerCase_idem: "toLowerCase (toLowerCase s) = toLowerCase s"
  by (simp add: toLowerCase_def lower_char_idem)

lemma toLowerCase_dropWhile: "toLowerCase (dropWhile is_ws s) = dropWhile is_ws (toLowerCase s)"
  by (simp add: toLowerCase_def dropWhile_map comp_def is_ws_lower_char)

lemma toLowerCase_trim: "toLowerCase (trim s) = trim (toLowerCase s)"
proof -
  have "toLowerCase (rev xs) = rev (toLowerCase xs)" for xs
    by (simp add: toLowerCase_def rev_map)
  then show ?thesis
    by (simp add: trim_def toLowerCase_dropWhile)
qed

lemma dropWhile_snoc_keep: "\<not> P x \<Longrightarrow> dropWhile P (ys @ [x]) = dropWhile P ys @ [x]"
  by (induction ys) auto

lemma strip_end_keeps_head:
  "\<not> P x \<Longrightarrow> rev (dropWhile P (rev (x # xs))) = x # rev (dropWhile P (rev xs))"
  by (simp add: dropWhile_snoc_keep)

lemma trim_idem: "trim (trim s) = trim s"
proof (cases "dropWhile is_ws s")
  case Nil
  show ?thesis unfolding trim_def Nil by simp
next
  case (Cons x t)
  then have nx: "\<not> is_ws x"
    using hd_dropWhile [of is_ws s] by simp
  from strip_end_keeps_head [of is_ws x t] nx obtain zs where
    zs: "rev (dropWhile is_ws (rev (x # t))) = x # zs" by blast
  have u: "trim s = x # zs"
    using Cons zs by (simp add: trim_def)
  have tail_kept: "dropWhile is_ws (rev (x # zs)) = rev (x # zs)"
  proof -
    have "rev (x # zs) = dropWhile is_ws (rev (x # t))"
      using zs by (metis rev_rev_ident)
    then show ?thesis by (metis dropWhile_idem)
  qed
  have "trim (x # zs) = rev (dropWhile is_ws (rev (x # zs)))"
    using nx by (simp add: trim_def)
  with tail_kept u show ?thesis by simp
qed

lemma normalise_email_idem: "normalise_email (normalise_email e) = normalise_email e"
  by (simp add: normalise_email_def toLowerCase_trim toLowerCase_idem trim_idem)

lemma normalise_email_lower: "normalise_email (toLowerCase e) = normalise_email e"
  by (simp add: normalise_email_def toLowerCase_idem)

lemma normalise_email_trim_lower:
  "normalise_email (trim (toLowerCase e)) = normalise_email e"
  using normalise_email_idem [of e] by (simp add: normalise_email_def)

lemma find_snoc:
  "find P (xs @ [y]) = (case find P xs of None \<Rightarrow> (if P y then Some y else None) | Some x \<Rightarrow> Some x)"
  by (induction xs) auto

text \<open>
  C3.  Take an email and a nickname that are strings, the nickname not empty and the email
  not empty once lower-cased and trimmed.  \<^verbatim>\<open>POST /api/users/create-basic\<close> with them
  succeeds with a user (status 201 and the user appended when no user had the email), and a
  second call with the same email and any nickname answers 200 with that same user and
  leaves the store as the first call left it.
\<close>

theorem create_basic_idempotent:
  assumes "lookup b1 ''email'' = JStr e" and "lookup b1 ''nickname'' = JStr n1" and "n1 \<noteq> []"
    and "normalise_email e \<noteq> []"
    and "lookup b2 ''email'' = JStr e" and "truthy (lookup b2 ''nickname'')"
  shows "\<exists>r1 s1 u. create_basic t1 b1 s = (r1, s1) \<and>
           (status r1 = 201 \<or> status r1 = 200) \<and> payload r1 = UserData u \<and>
           (findOne_user e s = None \<longrightarrow> status r1 = 201 \<and> users s1 = users s @ [u]) \<and>
           create_basic t2 b2 s1 = (Reply 200 ''User exists'' (UserData u), s1)"
proof -
  from assms(4) have e: "e \<noteq> []"
    by (auto simp add: normalise_email_def trim_def toLowerCase_def)
  show ?thesis
  proof (cases "findOne_user (toLowerCase e) s")
    case (Some u)
    then have "findOne_user e s \<noteq> None"
      by (simp add: findOne_user_def normalise_email_lower)
    with Some assms e show ?thesis
      by (simp add: create_basic_def)
  next
    case None
    define d where "d = new_user (trim (toLowerCase e)) (JStr (trim n1)) (JStr (trim n1)) (JStr [])"
    define u where "u = \<lparr>ident = next_id s, createdAt = t1, updatedAt = t1, doc = d\<rparr>"
    define s1 where "s1 = s\<lparr>users := users s @ [u], next_id := Suc (next_id s)\<rparr>"
    have em: "email d = normalise_email e"
      by (simp add: d_def new_user_def normalise_email_trim_lower)
    have nodup: "find (\<lambda>x. email (doc x) = normalise_email e) (users s) = None"
      using None by (simp add: findOne_user_def normalise_email_lower)
    have ins: "insert_user t1 d s = Inr (u, s1)"
      using assms(4) nodup by (simp add: insert_user_def Let_def em u_def s1_def)
    have first: "create_basic t1 b1 s = (Reply 201 ''User created successfully'' (UserData u), s1)"
      using assms e None ins by (simp add: create_basic_def d_def)
    have "findOne_user (toLowerCase e) s1 = Some u"
      using nodup by (simp add: findOne_user_def s1_def find_snoc u_def em normalise_email_lower)
    then have second: "create_basic t2 b2 s1 = (Reply 200 ''User exists'' (UserData u), s1)"
      using assms e by (simp add: create_basic_def)
    have "users s1 = users s @ [u]"
      by (simp add: s1_def)
    with first second show ?thesis by simp
  qed
qed

lemma basic_run:
  "create_basic 3 basic_first empty_store =
     (fst (create_basic 3 basic_first empty_store), snd (create_basic 3 basic_first empty_store))"
  by simp

text \<open>The second call, with another nickname, returns the user of the first call, whose
  nickname stays \<open>Al\<close>.\<close>

theorem create_basic_idempotent_witness:
  "status (fst (create_basic 3 basic_first empty_store)) = 201 \<and>
   create_basic 4 basic_second (snd (create_basic 3 basic_first empty_store)) =
     (Reply 200 ''User exists'' (payload (fst (create_basic 3 basic_first empty_store))),
      snd (create_basic 3 basic_first empty_store)) \<and>
   map (nickname \<circ> doc) (users (snd (create_basic 3 basic_first empty_store))) = [JStr ''Al''] \<and>
   map (email \<circ> doc) (users (snd (create_basic 3 basic_first empty_store))) = [''a@b.com'']"
proof -
  have a: "lookup basic_first ''email'' = JStr ''A@b.Com''"
      "lookup basic_first ''nickname'' = JStr '' Al''"
      "lookup basic_second ''email'' = JStr ''A@b.Com''"
      "truthy (lookup basic_second ''nickname'')"
    by (simp_all add: basic_first_def basic_second_def lookup_def)
  have b: "normalise_email ''A@b.Com'' \<noteq> []"
    by code_simp
  have c: "status (fst (create_basic 3 basic_first empty_store)) = 201"
    by code_simp
  have d: "map (nickname \<circ> doc) (users (snd (create_basic 3 basic_first empty_store)))
           = [JStr ''Al'']"
    by code_simp
  have e: "map (email \<circ> doc) (users (snd (create_basic 3 basic_first empty_store)))
           = [''a@b.com'']"
    by code_simp
  from create_basic_idempotent [of basic_first "''A@b.Com''" "'' Al''" basic_second 3
      empty_store 4] a b
  have "create_basic 4 basic_second (snd (create_basic 3 basic_first empty_store)) =
     (Reply 200 ''User exists'' (payload (fst (create_basic 3 basic_first empty_store))),
      snd (create_basic 3 basic_first empty_store))"
    by auto
  with c d e show ?thesis by simp
qed


lemma save_user_doc:
  "save_user now u m s = (u', s') \<Longrightarrow>
     doc u' = doc m \<and> ident u' = ident m \<and> createdAt u' = createdAt m \<and>
     s' = s\<lparr>users := replace_by_id (ident u) u' (users s)\<rparr>"
  by (auto simp add: save_user_def Let_def split: if_splits)

lemma found_user_stored:
  "findOne_user q s = Some u \<Longrightarrow> y \<in> set (replace_by_id (ident u) y (users s))"
  unfolding findOne_user_def by (rule stored_after_replace)

text \<open>\<^verbatim>\<open>user[key] = value\<close> on each of the paths of the schema.\<close>

lemma assign_user_name:
  "assign_user lib ''name'' v m =
     map_option (\<lambda>c. m\<lparr>doc := (doc m)\<lparr>name := c\<rparr>\<rparr>) (cast_user_path lib ''name'' (doc m) v)"
  by (simp add: assign_user_def cast_user_path_def)


lemma assign_user_phone:
  "assign_user lib ''phone'' v m =
     map_option (\<lambda>c. m\<lparr>doc := (doc m)\<lparr>phone := c\<rparr>\<rparr>) (cast_user_path lib ''phone'' (doc m) v)"
  by (simp add: assign_user_def cast_user_path_def)




lemma cast_user_path_name: "cast_user_path lib ''name'' d v = castString (lib_number lib) v"
  by (simp add: cast_user_path_def)

lemma cast_user_path_nickname:
  "cast_user_path lib ''nickname'' d v = castString (lib_number lib) v"
  by (simp add: cast_user_path_def)

lemma cast_user_path_phone: "cast_user_path lib ''phone'' d v = castString (lib_number lib) v"
  by (simp add: cast_user_path_def)

lemma castString_string: "is_string v \<Longrightarrow> castString fmt v = Some v"
  by (cases v) simp_all

text \<open>
  C4, as the code has it.  Take a registration with a name, an email that is a string and
  a phone, whose email lower-cased is that of a stored user.  The name and the phone are
  cast to strings as the schema says (a string is stored as supplied, a number or a
  boolean as it prints).  When one of them cannot be cast (an array, an object), or when
  the nickname was empty and the name is no string to split, the call answers 500 and the
  store is as before.  Otherwise it answers 200 with the user as changed, which is what
  the store now holds; the stored name and phone are the ones supplied, as cast; every
  other path but the nickname is as before; and the nickname is as before when it was not
  empty, and otherwise the part of the supplied name before its first space character
  (\<^verbatim>\<open>name.split(' ')[0]\<close>).
\<close>

theorem register_existing_user:
  assumes "truthy (lookup body ''name'')" and "truthy (lookup body ''phone'')"
    and "lookup body ''email'' = JStr e" and "e \<noteq> []"
    and "findOne_user (toLowerCase e) s = Some u"
  shows
    "((\<not> truthy (nickname (doc u)) \<and> \<not> is_string (lookup body ''name'')) \<or>
      castString (lib_number lib) (lookup body ''name'') = None \<or>
      castString (lib_number lib) (lookup body ''phone'') = None \<longrightarrow>
        register lib now body s = (Reply 500 ''Failed to register user'' NoData, s)) \<and>
     (\<forall>n p. (is_string (lookup body ''name'') \<or> truthy (nickname (doc u))) \<and>
            castString (lib_number lib) (lookup body ''name'') = Some n \<and>
            castString (lib_number lib) (lookup body ''phone'') = Some p \<longrightarrow>
        (\<exists>u'. register lib now body s =
               (Reply 200 ''User updated successfully'' (UserData u'),
                s\<lparr>users := replace_by_id (ident u) u' (users s)\<rparr>) \<and>
             u' \<in> set (replace_by_id (ident u) u' (users s)) \<and>
             ident u' = ident u \<and> createdAt u' = createdAt u \<and>
             doc u' = (doc u)\<lparr>name := n, phone := p,
                              nickname := (if truthy (nickname (doc u)) then nickname (doc u)
                                           else JStr (split_space_first
                                                        (str_of (lookup body ''name''))))\<rparr> \<and>
             (is_string (lookup body ''name'') \<longrightarrow> n = lookup body ''name'') \<and>
             (is_string (lookup body ''phone'') \<longrightarrow> p = lookup body ''phone'')))"
proof (intro conjI allI impI)
  assume bad: "(\<not> truthy (nickname (doc u)) \<and> \<not> is_string (lookup body ''name'')) \<or>
      castString (lib_number lib) (lookup body ''name'') = None \<or>
      castString (lib_number lib) (lookup body ''phone'') = None"
  show "register lib now body s = (Reply 500 ''Failed to register user'' NoData, s)"
  proof (cases "\<not> truthy (nickname (doc u)) \<and> \<not> is_string (lookup body ''name'')")
    case True
    with assms show ?thesis by (simp add: register_def Let_def)
  next
    case False
    with bad have "castString (lib_number lib) (lookup body ''name'') = None \<or>
        castString (lib_number lib) (lookup body ''phone'') = None"
      by auto
    then have "Option.bind (assign_user lib ''name'' (lookup body ''name'') u)
                 (assign_user lib ''phone'' (lookup body ''phone'')) = None"
      by (cases "castString (lib_number lib) (lookup body ''name'')")
        (auto simp add: assign_user_name assign_user_phone cast_user_path_name
           cast_user_path_phone)
    with assms False show ?thesis by (simp add: register_def Let_def)
  qed
next
  fix n p
  assume ok: "(is_string (lookup body ''name'') \<or> truthy (nickname (doc u))) \<and>
            castString (lib_number lib) (lookup body ''name'') = Some n \<and>
            castString (lib_number lib) (lookup body ''phone'') = Some p"
  define m where "m = u\<lparr>doc := (doc u)\<lparr>name := n, phone := p\<rparr>\<rparr>"
  define m' where "m' = (if truthy (nickname (doc u)) then m
      else m\<lparr>doc := (doc m)\<lparr>nickname := JStr (split_space_first (str_of (lookup body ''name'')))\<rparr>\<rparr>)"
  have asg: "Option.bind (assign_user lib ''name'' (lookup body ''name'') u)
               (assign_user lib ''phone'' (lookup body ''phone'')) = Some m"
    using ok
    by (simp add: assign_user_name assign_user_phone cast_user_path_name cast_user_path_phone
          m_def)
  obtain u' s' where sv: "save_user now u m' s = (u', s')"
    by (cases "save_user now u m' s")
  have run: "register lib now body s = (Reply 200 ''User updated successfully'' (UserData u'), s')"
    using assms ok asg sv by (auto simp add: register_def m'_def)
  have strs: "(is_string (lookup body ''name'') \<longrightarrow> n = lookup body ''name'') \<and>
           (is_string (lookup body ''phone'') \<longrightarrow> p = lookup body ''phone'')"
    using ok castString_string [of "lookup body ''name''" "lib_number lib"]
      castString_string [of "lookup body ''phone''" "lib_number lib"]
    by auto
  from save_user_doc [OF sv] run found_user_stored [OF assms(5), of u'] strs
  show "\<exists>u'. register lib now body s =
               (Reply 200 ''User updated successfully'' (UserData u'),
                s\<lparr>users := replace_by_id (ident u) u' (users s)\<rparr>) \<and>
             u' \<in> set (replace_by_id (ident u) u' (users s)) \<and>
             ident u' = ident u \<and> createdAt u' = createdAt u \<and>
             doc u' = (doc u)\<lparr>name := n, phone := p,
                              nickname := (if truthy (nickname (doc u)) then nickname (doc u)
                                           else JStr (split_space_first
                                                        (str_of (lookup body ''name''))))\<rparr> \<and>
             (is_string (lookup body ''name'') \<longrightarrow> n = lookup body ''name'') \<and>
             (is_string (lookup body ''phone'') \<longrightarrow> p = lookup body ''phone'')"
    by (cases u; cases "doc u") (auto simp add: m'_def m_def)
qed

text \<open>On a user with an empty nickname, the name \<open>Ada Lovelace\<close> gives the nickname
  \<open>Ada\<close>; the phone 802, a number, is stored as the string \<open>802\<close>; a name that is an object
  is answered with 500.\<close>

theorem register_existing_user_witness:
  "status (fst (register sample_library 9 register_space blank_nick_store)) = 200 \<and>
   map (nickname \<circ> doc) (users blank_nick_store) = [JStr []] \<and>
   map (nickname \<circ> doc) (users (snd (register sample_library 9 register_space blank_nick_store)))
     = [JStr ''Ada''] \<and>
   map (name \<circ> doc) (users (snd (register sample_library 9 register_space blank_nick_store)))
     = [JStr ''Ada Lovelace''] \<and>
   status (fst (register sample_library 9 register_number_phone blank_nick_store)) = 200 \<and>
   map (phone \<circ> doc)
     (users (snd (register sample_library 9 register_number_phone blank_nick_store)))
     = [JStr ''802''] \<and>
   register sample_library 9 register_object_name blank_nick_store =
     (Reply 500 ''Failed to register user'' NoData, blank_nick_store)"
proof -
  have a: "truthy (lookup register_space ''name'')" "truthy (lookup register_space ''phone'')"
      "lookup register_space ''email'' = JStr ''Ada@Example.com''"
      "is_string (lookup register_space ''name'')"
      "castString (lib_number sample_library) (lookup register_space ''name'')
         = Some (JStr ''Ada Lovelace'')"
      "castString (lib_number sample_library) (lookup register_space ''phone'')
         = Some (JStr ''0801'')"
    by (simp_all add: register_space_def lookup_def)
  have a': "truthy (lookup register_number_phone ''name'')"
      "truthy (lookup register_number_phone ''phone'')"
      "lookup register_number_phone ''email'' = JStr ''Ada@Example.com''"
      "is_string (lookup register_number_phone ''name'')"
      "castString (lib_number sample_library) (lookup register_number_phone ''name'')
         = Some (JStr ''Ada Lovelace'')"
    by (simp_all add: register_number_phone_def lookup_def)
  have p': "castString (lib_number sample_library) (lookup register_number_phone ''phone'')
         = Some (JStr ''802'')"
    by code_simp
  have a'': "truthy (lookup register_object_name ''name'')"
      "truthy (lookup register_object_name ''phone'')"
      "lookup register_object_name ''email'' = JStr ''Ada@Example.com''"
      "\<not> is_string (lookup register_object_name ''name'')"
    by (simp_all add: register_object_name_def lookup_def)
  have b: "findOne_user (toLowerCase ''Ada@Example.com'') blank_nick_store
             = Some (hd (users blank_nick_store))"
    by code_simp
  have c: "map (nickname \<circ> doc) (users blank_nick_store) = [JStr []]"
    by code_simp
  have c': "\<not> truthy (nickname (doc (hd (users blank_nick_store))))"
    by code_simp
  have d: "map (nickname \<circ> doc)
             (users (snd (register sample_library 9 register_space blank_nick_store)))
             = [JStr ''Ada'']"
    by code_simp
  have e: "map (name \<circ> doc)
             (users (snd (register sample_library 9 register_space blank_nick_store)))
             = [JStr ''Ada Lovelace'']"
    by code_simp
  have f: "map (phone \<circ> doc)
             (users (snd (register sample_library 9 register_number_phone blank_nick_store)))
             = [JStr ''802'']"
    by code_simp
  from register_existing_user [of register_space "''Ada@Example.com''" blank_nick_store
      "hd (users blank_nick_store)" sample_library 9] a b
  have g: "status (fst (register sample_library 9 register_space blank_nick_store)) = 200"
    by auto
  from register_existing_user [of register_number_phone "''Ada@Example.com''" blank_nick_store
      "hd (users blank_nick_store)" sample_library 9] a' p' b
  have h: "status (fst (register sample_library 9 register_number_phone blank_nick_store)) = 200"
    by auto
  from register_existing_user [of register_object_name "''Ada@Example.com''" blank_nick_store
      "hd (users blank_nick_store)" sample_library 9] a'' b c'
  have "register sample_library 9 register_object_name blank_nick_store =
     (Reply 500 ''Failed to register user'' NoData, blank_nick_store)"
    by blast
  with c d e f g h show ?thesis by simp
qed

text \<open>C4 as the specification words it fails: a name whose first white space is a tab, not
  a space, is not split, and the whole name becomes the nickname where the first
  whitespace-delimited token is \<open>Ada\<close>.\<close>

theorem nickname_tab_counterexample:
  "status (fst (register sample_library 9 register_tab blank_nick_store)) = 200 \<and>
   map (nickname \<circ> doc) (users blank_nick_store) = [JStr []] \<and>
   map (nickname \<circ> doc) (users (snd (register sample_library 9 register_tab blank_nick_store)))
     = [JStr tab_name] \<and>
   spec_first_token tab_name = ''Ada'' \<and>
   tab_name \<noteq> ''Ada''"
  by code_simp






























section \<open>Products\<close>

lemma trim_Nil: "trim [] = []"
  by (simp add: trim_def)

lemma missing_text_iff: "missing_text v \<longleftrightarrow> \<not> is_string v \<or> trim (str_of v) = []"
  by (cases v) (auto simp add: missing_text_def trim_Nil)

lemma parseFloat_zero_string: "parseFloat_str ''0'' = Fin 0"
  by code_simp

text \<open>
  C7, as the code has it.  \<^verbatim>\<open>POST /api/products\<close> answers 400 with the message of the first
  failing field, in the order name, description, price, category, and stores nothing, when
  the name, the description or the category is not a string or is empty after trimming
  (\<open>missing_text\<close>), or when the price is falsy or parses to \<open>NaN\<close>.  When no field fails and
  the price parses as a finite number, it stores the product with the trimmed strings, the
  parsed price and the path of the uploaded image, and answers 201.
\<close>

theorem create_product_validation:
  "(let nm = lookup body ''name''; ds = lookup body ''description'';
        pr = lookup body ''price''; ct = lookup body ''category'' in
    (missing_text nm \<longrightarrow>
       create_product now body file s = (Reply 400 ''Product name is required'' NoData, s)) \<and>
    (\<not> missing_text nm \<and> missing_text ds \<longrightarrow>
       create_product now body file s =
         (Reply 400 ''Product description is required'' NoData, s)) \<and>
    (\<not> missing_text nm \<and> \<not> missing_text ds \<and> (\<not> truthy pr \<or> isNaN (parseFloat pr)) \<longrightarrow>
       create_product now body file s =
         (Reply 400 ''Valid product price is required'' NoData, s)) \<and>
    (\<not> missing_text nm \<and> \<not> missing_text ds \<and> truthy pr \<and> \<not> isNaN (parseFloat pr) \<and>
     missing_text ct \<longrightarrow>
       create_product now body file s =
         (Reply 400 ''Product category is required'' NoData, s)) \<and>
    (\<not> missing_text nm \<and> \<not> missing_text ds \<and> \<not> missing_text ct \<and> truthy pr \<and>
     isFinite (parseFloat pr) \<longrightarrow>
       (\<exists>saved. create_product now body file s =
          (Reply 201 ''Product uploaded successfully'' (ProductData saved),
           s\<lparr>products := products s @ [saved], next_id := Suc (next_id s)\<rparr>) \<and>
          doc saved =
            \<lparr>name_p = trim (str_of nm), description = trim (str_of ds),
             price = parseFloat pr, category = trim (str_of ct),
             imageUrl = (case file of Some f \<Rightarrow> ''/uploads/'' @ f | None \<Rightarrow> [])\<rparr>)))"
proof -
  have fin: "isFinite n \<Longrightarrow> \<not> isNaN n" for n
    by (cases n) (simp_all add: isNaN_def)
  show ?thesis
    by (auto simp add: create_product_def missing_text_def insert_product_def Let_def trim_Nil
          dest: fin)
qed

text \<open>A product priced \<open>12.50\<close> with an image is stored; a name of spaces is refused.\<close>

theorem create_product_validation_witness:
  "status (fst (create_product 5 priced_product (Some ''1700000000000-suya.png'') empty_store)) = 201 \<and>
   map doc (products (snd (create_product 5 priced_product (Some ''1700000000000-suya.png'') empty_store))) =
     [\<lparr>name_p = ''Suya'', description = ''Grilled beef'', price = Fin (25 / 2),
       category = ''Grills'', imageUrl = ''/uploads/1700000000000-suya.png''\<rparr>] \<and>
   create_product 5 ((''name'', JStr ''   '') # priced_product) None empty_store =
     (Reply 400 ''Product name is required'' NoData, empty_store)"
proof -
  have a: "status (fst (create_product 5 priced_product (Some ''1700000000000-suya.png'') empty_store)) = 201"
    by code_simp
  have b: "map doc (products (snd (create_product 5 priced_product (Some ''1700000000000-suya.png'') empty_store))) =
     [\<lparr>name_p = ''Suya'', description = ''Grilled beef'', price = Fin (25 / 2),
       category = ''Grills'', imageUrl = ''/uploads/1700000000000-suya.png''\<rparr>]"
    by code_simp
  have c: "missing_text (lookup ((''name'', JStr ''   '') # priced_product) ''name'')"
    by code_simp
  from create_product_validation [of "(''name'', JStr ''   '') # priced_product" 5 None empty_store] c
  have "create_product 5 ((''name'', JStr ''   '') # priced_product) None empty_store =
     (Reply 400 ''Product name is required'' NoData, empty_store)"
    by (simp add: Let_def)
  with a b show ?thesis by simp
qed

text \<open>C7 as the specification words it fails both ways: the number 0 parses as a finite
  number and is refused, as is a name that is a number, neither missing nor empty; and the
  string \<open>Infinity\<close> does not parse as a finite number and is stored.\<close>

theorem product_validation_counterexample:
  "\<not> spec_product_rejected zero_price_product \<and>
   status (fst (create_product 5 zero_price_product None empty_store)) = 400 \<and>
   \<not> spec_product_rejected numeric_name_product \<and>
   status (fst (create_product 5 numeric_name_product None empty_store)) = 400 \<and>
   spec_product_rejected infinity_product \<and>
   status (fst (create_product 5 infinity_product None empty_store)) = 201 \<and>
   map (price \<circ> doc) (products (snd (create_product 5 infinity_product None empty_store)))
     = [PosInf]"
  by code_simp

text \<open>
  C10.  The number 0 is falsy and parses as a finite number; the string \<open>0\<close> is truthy.
  With a name, a description and a category that pass, \<^verbatim>\<open>POST /api/products\<close> refuses the
  number 0 as a price with 400 and \<open>Valid product price is required\<close>, and accepts the
  string \<open>0\<close>: the product is stored with the price 0 and the answer is 201.
\<close>

theorem product_zero_price:
  assumes "\<not> missing_text (lookup body ''name'')" and "\<not> missing_text (lookup body ''description'')"
    and "\<not> missing_text (lookup body ''category'')"
  shows "\<not> truthy (JNum (Fin 0)) \<and> isFinite (parseFloat (JNum (Fin 0))) \<and>
         truthy (JStr ''0'') \<and>
         create_product now ((''price'', JNum (Fin 0)) # body) file s =
           (Reply 400 ''Valid product price is required'' NoData, s) \<and>
         (\<exists>saved. create_product now ((''price'', JStr ''0'') # body) file s =
            (Reply 201 ''Product uploaded successfully'' (ProductData saved),
             s\<lparr>products := products s @ [saved], next_id := Suc (next_id s)\<rparr>) \<and>
            price (doc saved) = Fin 0)"
  using assms
  by (auto simp add: create_product_def missing_text_def insert_product_def Let_def lookup_Cons
        trim_Nil
        parseFloat_zero_string isNaN_def)

theorem product_zero_price_witness:
  "create_product 5 ((''price'', JNum (Fin 0)) # sample_product) None empty_store =
     (Reply 400 ''Valid product price is required'' NoData, empty_store) \<and>
   status (fst (create_product 5 ((''price'', JStr ''0'') # sample_product) None empty_store)) = 201 \<and>
   map (price \<circ> doc) (products (snd (create_product 5 ((''price'', JStr ''0'') # sample_product) None empty_store))) = [Fin 0]"
proof -
  have a: "\<not> missing_text (lookup sample_product ''name'')"
      "\<not> missing_text (lookup sample_product ''description'')"
      "\<not> missing_text (lookup sample_product ''category'')"
    by code_simp+
  have b: "status (fst (create_product 5 ((''price'', JStr ''0'') # sample_product) None empty_store)) = 201"
    by code_simp
  have c: "map (price \<circ> doc) (products (snd (create_product 5 ((''price'', JStr ''0'') # sample_product) None empty_store))) = [Fin 0]"
    by code_simp
  from product_zero_price [OF a, of 5 None empty_store] b c
  show ?thesis by simp
qed

section \<open>Orders: listing\<close>

lemma mset_newest_first: "mset (newest_first xs) = mset xs"
  by (simp add: newest_first_def)

lemma sorted_newest_first: "sorted_wrt (\<lambda>a b. createdAt b \<le> createdAt a) (newest_first xs)"
proof -
  have "sorted (map (\<lambda>x. - int (createdAt x)) (newest_first xs))"
    unfolding newest_first_def by (rule sorted_sort_key)
  then show ?thesis
    by (simp add: sorted_map)
qed

text \<open>
  C9.  \<^verbatim>\<open>GET /api/orders\<close> with a non-empty \<^verbatim>\<open>email\<close> parameter returns exactly the stored
  orders whose \<^verbatim>\<open>customer.email\<close> is that string, compared as it is; without the parameter
  (or with an empty one, which the handler takes for none) it returns all orders; both
  newest first.  A user, in contrast, is looked up by the parameter lower-cased (and
  trimmed, as the schema has it).
\<close>

theorem list_orders_by_email:
  "(e \<noteq> [] \<longrightarrow>
      (\<exists>xs. list_orders (Some e) s = (Reply 200 [] (OrderList xs), s) \<and>
            mset xs = mset (filter (\<lambda>x. get_prop (customer (doc x)) ''email'' = JStr e) (orders s)) \<and>
            sorted_wrt (\<lambda>a b. createdAt b \<le> createdAt a) xs)) \<and>
   (\<exists>xs. list_orders None s = (Reply 200 [] (OrderList xs), s) \<and>
         mset xs = mset (orders s) \<and>
         sorted_wrt (\<lambda>a b. createdAt b \<le> createdAt a) xs) \<and>
   list_orders (Some []) s = list_orders None s \<and>
   get_user param s =
     (case find (\<lambda>u. email (doc u) = trim (toLowerCase param)) (users s) of
        None \<Rightarrow> (Reply 404 ''User not found'' NoData, s)
      | Some u \<Rightarrow> (Reply 200 [] (UserData u), s))"
proof (intro conjI impI)
  assume e: "e \<noteq> []"
  have flt: "order_filter (Some e) = (\<lambda>x. get_prop (customer (doc x)) ''email'' = JStr e)"
    using e by (simp add: order_filter_def fun_eq_iff)
  show "\<exists>xs. list_orders (Some e) s = (Reply 200 [] (OrderList xs), s) \<and>
            mset xs = mset (filter (\<lambda>x. get_prop (customer (doc x)) ''email'' = JStr e) (orders s)) \<and>
            sorted_wrt (\<lambda>a b. createdAt b \<le> createdAt a) xs"
    by (simp add: list_orders_def flt mset_newest_first sorted_newest_first)
next
  have "order_filter None = (\<lambda>x. True)"
    by (simp add: order_filter_def fun_eq_iff)
  then show "\<exists>xs. list_orders None s = (Reply 200 [] (OrderList xs), s) \<and>
         mset xs = mset (orders s) \<and> sorted_wrt (\<lambda>a b. createdAt b \<le> createdAt a) xs"
    by (simp add: list_orders_def mset_newest_first sorted_newest_first)
next
  show "list_orders (Some []) s = list_orders None s"
    by (simp add: list_orders_def order_filter_def)
next
  have "normalise_email (toLowerCase param) = trim (toLowerCase param)"
    by (simp add: normalise_email_def toLowerCase_idem)
  then show "get_user param s =
     (case find (\<lambda>u. email (doc u) = trim (toLowerCase param)) (users s) of
        None \<Rightarrow> (Reply 404 ''User not found'' NoData, s)
      | Some u \<Rightarrow> (Reply 200 [] (UserData u), s))"
    by (simp add: get_user_def findOne_user_def)
qed

text \<open>Of two orders placed under \<open>a@b.com\<close> and \<open>A@B.com\<close>, the filter \<open>a@b.com\<close> returns
  the first only; without a filter the later order comes first; the user \<open>a@b.com\<close> is
  found by \<open>A@B.com\<close>.\<close>

theorem list_orders_by_email_witness:
  "list_orders (Some ''a@b.com'') two_order_store =
     (Reply 200 [] (OrderList [orders two_order_store ! 0]), two_order_store) \<and>
   fst (list_orders None two_order_store) =
     Reply 200 [] (OrderList [orders two_order_store ! 1, orders two_order_store ! 0]) \<and>
   map createdAt (orders two_order_store) = [7, 8] \<and>
   status (fst (get_user ''A@B.com'' two_order_store)) = 200"
proof -
  have a: "filter (\<lambda>x. get_prop (customer (doc x)) ''email'' = JStr ''a@b.com'')
             (orders two_order_store) = [orders two_order_store ! 0]"
    by code_simp
  have b: "fst (list_orders None two_order_store) =
     Reply 200 [] (OrderList [orders two_order_store ! 1, orders two_order_store ! 0])"
    by code_simp
  have c: "map createdAt (orders two_order_store) = [7, 8]"
    by code_simp
  have d: "status (fst (get_user ''A@B.com'' two_order_store)) = 200"
    by code_simp
  from list_orders_by_email [of "''a@b.com''" two_order_store] a
  have "list_orders (Some ''a@b.com'') two_order_store =
     (Reply 200 [] (OrderList [orders two_order_store ! 0]), two_order_store)"
    by auto
  with b c d show ?thesis by simp
qed

end
